theory Spec2Isabelle
  imports Main "HOL-Library.AList"
begin

section \<open>Values held in the user store\<close>

text \<open>
  The store is one JSON file. What \<^verbatim>\<open>json.loads\<close> can return is a value of the
  type below: \<^verbatim>\<open>None\<close>, a bool, an int, a float, a str, a list or a dict with str
  keys. A Python dict keeps its keys in insertion order, so a dict is an association
  list; a lookup reads the first pair with the key and an assignment replaces that pair
  in place or appends a new one, as the dict does.
\<close>

datatype pyfloat = Finite int int | PosInf | NegInf | NaN

datatype json =
    JNull
  | JBool bool
  | JInt int
  | JFloat pyfloat
  | JStr string
  | JArr "json list"
  | JObj "(string \<times> json) list"

type_synonym jobj = "(string \<times> json) list"

text \<open>\<^verbatim>\<open>d.get(k)\<close>: the value, or \<^verbatim>\<open>None\<close> for a missing key.\<close>

definition py_get :: "jobj \<Rightarrow> string \<Rightarrow> json" where
  "py_get d k = (case map_of d k of None \<Rightarrow> JNull | Some v \<Rightarrow> v)"

text \<open>\<^verbatim>\<open>d.get(k, dflt)\<close>.\<close>

definition py_get_or :: "jobj \<Rightarrow> string \<Rightarrow> json \<Rightarrow> json" where
  "py_get_or d k dflt = (case map_of d k of None \<Rightarrow> dflt | Some v \<Rightarrow> v)"

text \<open>\<^verbatim>\<open>d[k] = v\<close>.\<close>

definition py_setitem :: "jobj \<Rightarrow> string \<Rightarrow> json \<Rightarrow> jobj" where
  "py_setitem d k v = AList.update k v d"

text \<open>\<^verbatim>\<open>cur.update(patch)\<close>: the items of the patch are assigned in their order.\<close>

definition py_update :: "jobj \<Rightarrow> jobj \<Rightarrow> jobj" where
  "py_update cur patch = fold (\<lambda>(k, v) d. py_setitem d k v) patch cur"

text \<open>Truth value of a JSON value, as \<^verbatim>\<open>x or y\<close> and \<^verbatim>\<open>not x\<close> test it.\<close>

fun truthy :: "json \<Rightarrow> bool" where
  "truthy JNull = False"
| "truthy (JBool b) = b"
| "truthy (JInt i) = (i \<noteq> 0)"
| "truthy (JFloat f) = (case f of Finite m e \<Rightarrow> m \<noteq> 0 | _ \<Rightarrow> True)"
| "truthy (JStr s) = (s \<noteq> [])"
| "truthy (JArr xs) = (xs \<noteq> [])"
| "truthy (JObj d) = (d \<noteq> [])"

text \<open>
  \<^verbatim>\<open>str(v)\<close>: a str is returned as it is. For any other value Python renders a text
  that no str stored by this program equals; the model keeps that rendering symbolic.
\<close>

datatype rendered = Str string | Repr json

definition py_str :: "json \<Rightarrow> rendered" where
  "py_str v = (case v of JStr s \<Rightarrow> Str s | _ \<Rightarrow> Repr v)"

section \<open>Strings\<close>

text \<open>
  Python strings are modelled as HOL strings. \<^verbatim>\<open>strip\<close>, \<^verbatim>\<open>lower\<close> and
  \<^verbatim>\<open>upper\<close> are defined on the ASCII range (white space is tab, line feed, vertical
  tab, form feed, carriage return, the four separators 28 to 31 and the blank); any
  other character is kept as it is.
\<close>

definition is_space :: "char \<Rightarrow> bool" where
  "is_space c = (let n = (of_char c :: nat) in (9 \<le> n \<and> n \<le> 13) \<or> (28 \<le> n \<and> n \<le> 32))"

definition str_strip :: "string \<Rightarrow> string" where
  "str_strip s = rev (dropWhile is_space (rev (dropWhile is_space s)))"

definition lower_char :: "char \<Rightarrow> char" where
  "lower_char c = (let n = (of_char c :: nat) in if 65 \<le> n \<and> n \<le> 90 then char_of (n + 32) else c)"

definition upper_char :: "char \<Rightarrow> char" where
  "upper_char c = (let n = (of_char c :: nat) in if 97 \<le> n \<and> n \<le> 122 then char_of (n - 32) else c)"

definition str_lower :: "string \<Rightarrow> string" where
  "str_lower s = map lower_char s"

definition str_upper :: "string \<Rightarrow> string" where
  "str_upper s = map upper_char s"

text \<open>\<^verbatim>\<open>str(n)\<close> of an int: its decimal digits, with a minus sign when negative.\<close>

definition digit_char :: "nat \<Rightarrow> char" where
  "digit_char n = char_of (48 + n)"

fun str_nat :: "nat \<Rightarrow> string" where
  "str_nat n = (if n < 10 then [digit_char n] else str_nat (n div 10) @ [digit_char (n mod 10)])"

declare str_nat.simps [simp del]

definition str_int :: "int \<Rightarrow> string" where
  "str_int i = (if i < 0 then CHR ''-'' # str_nat (nat (- i)) else str_nat (nat i))"

text \<open>
  \<^verbatim>\<open>int(s)\<close> of a str: surrounding white space is dropped, then an optional sign and
  decimal digits, where single underscores may stand between digits. Anything else is a
  \<^verbatim>\<open>ValueError\<close>, here \<open>None\<close>.
\<close>

definition is_digit :: "char \<Rightarrow> bool" where
  "is_digit c = (let n = (of_char c :: nat) in 48 \<le> n \<and> n \<le> 57)"

definition digit_val :: "char \<Rightarrow> nat" where
  "digit_val c = (of_char c :: nat) - 48"

fun int_digits :: "nat \<Rightarrow> string \<Rightarrow> nat option" where
  "int_digits acc [] = Some acc"
| "int_digits acc [c] = (if is_digit c then Some (acc * 10 + digit_val c) else None)"
| "int_digits acc (c # d # cs) =
     (if is_digit c then int_digits (acc * 10 + digit_val c) (d # cs)
      else if c = CHR ''_'' \<and> is_digit d then int_digits (acc * 10 + digit_val d) cs
      else None)"

definition int_unsigned :: "string \<Rightarrow> nat option" where
  "int_unsigned s = (case s of [] \<Rightarrow> None | c # cs \<Rightarrow> if is_digit c then int_digits (digit_val c) cs else None)"

definition py_int :: "string \<Rightarrow> int option" where
  "py_int s =
     (case str_strip s of
        [] \<Rightarrow> None
      | c # cs \<Rightarrow>
          if c = CHR ''-'' then map_option (\<lambda>n. - int n) (int_unsigned cs)
          else if c = CHR ''+'' then map_option int (int_unsigned cs)
          else map_option int (int_unsigned (c # cs)))"

section \<open>Configuration\<close>

text \<open>The keys of \<^verbatim>\<open>PRICES\<close> with the promotional and the regular price of each plan.\<close>

definition PRICES :: "(string \<times> nat \<times> nat) list" where
  "PRICES = [(''BASIC'', 99, 149), (''PRO'', 249, 349), (''VIP'', 399, 499)]"

definition in_PRICES :: "string \<Rightarrow> bool" where
  "in_PRICES plan = (map_of PRICES plan \<noteq> None)"

definition SUPPORTED_LANGS :: "string list" where
  "SUPPORTED_LANGS = [''ru'', ''tj'']"

definition DEFAULT_LANG :: string where
  "DEFAULT_LANG = ''ru''"

section \<open>Storage\<close>

text \<open>
  The file at \<^verbatim>\<open>USERS_PATH\<close>, seen through what \<^verbatim>\<open>_safe_read_json\<close> meets when it
  reads it:
  \<^item> \<open>Missing\<close>: \<^verbatim>\<open>os.path.exists\<close> is false;
  \<^item> \<open>Unreadable\<close>: \<^verbatim>\<open>open\<close> or \<^verbatim>\<open>read\<close> raises;
  \<^item> \<open>Blank\<close>: the text is empty once stripped;
  \<^item> \<open>Malformed\<close>: \<^verbatim>\<open>json.loads\<close> raises on the text;
  \<^item> \<open>Json v\<close>: \<^verbatim>\<open>json.loads\<close> returns \<open>v\<close>.
  The disk holds that file and the staging file \<^verbatim>\<open>USERS_PATH + ".tmp"\<close>.
\<close>

datatype disk_file = Missing | Unreadable | Blank | Malformed | Json json

record disk =
  users_json :: disk_file
  users_tmp :: disk_file

text \<open>
  \<^verbatim>\<open>_safe_read_json\<close>. Every exception inside the \<^verbatim>\<open>try\<close> is caught and gives the
  empty dict; the disk is returned as it was.
\<close>

definition safe_read_json :: "disk \<Rightarrow> jobj \<times> disk" where
  "safe_read_json d =
     (case users_json d of
        Missing \<Rightarrow> ([], d)
      | Unreadable \<Rightarrow> ([], d)
      | Blank \<Rightarrow> ([], d)
      | Malformed \<Rightarrow> ([], d)
      | Json data \<Rightarrow> (case data of JObj m \<Rightarrow> (m, d) | _ \<Rightarrow> ([], d)))"

text \<open>
  \<^verbatim>\<open>_safe_write_json\<close> runs four statements inside one \<^verbatim>\<open>try\<close>: \<^verbatim>\<open>os.makedirs\<close>,
  \<^verbatim>\<open>open(tmp, "w")\<close>, \<^verbatim>\<open>json.dump\<close> and \<^verbatim>\<open>os.replace(tmp, path)\<close>. A run either
  completes or stops at one of them, because the statement raises (the exception is
  caught and logged) or because the process dies there. \<open>write_stop\<close> names the place.
\<close>

datatype write_stop =
    AtMakedirs
  | AtOpen
  | InDumpEmpty
  | InDumpPartial
  | AtReplace

text \<open>The effect of each statement on the disk.\<close>

definition stage_open :: "disk \<Rightarrow> disk" where
  "stage_open d = d\<lparr>users_tmp := Blank\<rparr>"

definition stage_partial :: "disk \<Rightarrow> disk" where
  "stage_partial d = d\<lparr>users_tmp := Malformed\<rparr>"

definition stage_full :: "jobj \<Rightarrow> disk \<Rightarrow> disk" where
  "stage_full data d = d\<lparr>users_tmp := Json (JObj data)\<rparr>"

definition os_replace :: "disk \<Rightarrow> disk" where
  "os_replace d = d\<lparr>users_json := users_tmp d, users_tmp := Missing\<rparr>"

definition safe_write_json :: "write_stop option \<Rightarrow> jobj \<Rightarrow> disk \<Rightarrow> disk" where
  "safe_write_json stop data d =
     (case stop of
        Some AtMakedirs \<Rightarrow> d
      | Some AtOpen \<Rightarrow> d
      | Some InDumpEmpty \<Rightarrow> stage_open d
      | Some InDumpPartial \<Rightarrow> stage_partial (stage_open d)
      | Some AtReplace \<Rightarrow> stage_full data (stage_open d)
      | None \<Rightarrow> os_replace (stage_full data (stage_open d)))"

section \<open>User records\<close>

text \<open>\<^verbatim>\<open>get_user\<close>.\<close>

definition get_user :: "int \<Rightarrow> disk \<Rightarrow> jobj \<times> disk" where
  "get_user uid d =
     (let (users, d1) = safe_read_json d;
          u = py_get_or users (str_int uid) (JObj [])
      in (case u of JObj r \<Rightarrow> (r, d1) | _ \<Rightarrow> ([], d1)))"

text \<open>\<^verbatim>\<open>upsert_user\<close>; \<open>stop\<close> is where its one write stops, if it does.\<close>

definition upsert_user :: "write_stop option \<Rightarrow> int \<Rightarrow> jobj \<Rightarrow> disk \<Rightarrow> jobj \<times> disk" where
  "upsert_user stop uid patch d =
     (let (users, d1) = safe_read_json d;
          key = str_int uid;
          cur = (case py_get_or users key (JObj []) of JObj r \<Rightarrow> r | _ \<Rightarrow> []);
          cur' = py_update cur patch;
          users' = py_setitem users key (JObj cur')
      in (cur', safe_write_json stop users' d1))"

section \<open>Purchase ledger\<close>

text \<open>\<^verbatim>\<open>set_purchase_status\<close>; \<open>now\<close> is \<^verbatim>\<open>int(time.time())\<close>.\<close>

definition set_purchase_status :: "write_stop option \<Rightarrow> int \<Rightarrow> int \<Rightarrow> string \<Rightarrow> string \<Rightarrow> disk \<Rightarrow> disk" where
  "set_purchase_status stop now uid plan status d =
     (let (u, d1) = get_user uid d;
          purchases = (case py_get_or u ''purchases'' (JObj []) of JObj p \<Rightarrow> p | _ \<Rightarrow> []);
          purchases' = py_setitem purchases plan (JObj [(''status'', JStr status), (''ts'', JInt now)])
      in snd (upsert_user stop uid [(''purchases'', JObj purchases')] d1))"

text \<open>\<^verbatim>\<open>get_purchase_status\<close>.\<close>

definition get_purchase_status :: "int \<Rightarrow> string \<Rightarrow> disk \<Rightarrow> rendered \<times> disk" where
  "get_purchase_status uid plan d =
     (let (u, d1) = get_user uid d
      in (case py_get_or u ''purchases'' (JObj []) of
            JObj purchases \<Rightarrow>
              (case py_get_or purchases plan (JObj []) of
                 JObj p \<Rightarrow> (py_str (py_get_or p ''status'' (JStr ''none'')), d1)
               | _ \<Rightarrow> (Str ''none'', d1))
          | _ \<Rightarrow> (Str ''none'', d1)))"

text \<open>
  The test that both functions make on one plan:
  \<^verbatim>\<open>isinstance(p, dict) and p.get("status") == "approved"\<close> for \<^verbatim>\<open>p = purchases.get(plan)\<close>.
\<close>

definition plan_approved :: "jobj \<Rightarrow> string \<Rightarrow> bool" where
  "plan_approved purchases plan =
     (case py_get purchases plan of
        JObj p \<Rightarrow> py_get p ''status'' = JStr ''approved''
      | _ \<Rightarrow> False)"

text \<open>The loop of \<^verbatim>\<open>user_has_access\<close> over the plans still to visit.\<close>

fun access_loop :: "jobj \<Rightarrow> string list \<Rightarrow> bool" where
  "access_loop purchases [] = False"
| "access_loop purchases (plan # rest) =
     (if plan_approved purchases plan then True else access_loop purchases rest)"

definition user_has_access :: "int \<Rightarrow> disk \<Rightarrow> bool \<times> disk" where
  "user_has_access uid d =
     (let (u, d1) = get_user uid d
      in (case py_get_or u ''purchases'' (JObj []) of
            JObj purchases \<Rightarrow> (access_loop purchases [''BASIC'', ''PRO'', ''VIP''], d1)
          | _ \<Rightarrow> (False, d1)))"

text \<open>The loop of \<^verbatim>\<open>get_approved_plan\<close>.\<close>

fun approved_loop :: "jobj \<Rightarrow> string list \<Rightarrow> string option" where
  "approved_loop purchases [] = None"
| "approved_loop purchases (plan # rest) =
     (if plan_approved purchases plan then Some plan else approved_loop purchases rest)"

definition get_approved_plan :: "int \<Rightarrow> disk \<Rightarrow> string option \<times> disk" where
  "get_approved_plan uid d =
     (let (u, d1) = get_user uid d
      in (case py_get_or u ''purchases'' (JObj []) of
            JObj purchases \<Rightarrow> (approved_loop purchases [''VIP'', ''PRO'', ''BASIC''], d1)
          | _ \<Rightarrow> (None, d1)))"

section \<open>Locale\<close>

datatype py_error = AttributeError

text \<open>
  \<^verbatim>\<open>get_lang\<close>. \<^verbatim>\<open>(u.get("lang") or "")\<close> is the stored value when it is truthy and
  the empty str otherwise; \<^verbatim>\<open>.strip()\<close> exists on a str only, so a truthy value of
  another type raises \<^verbatim>\<open>AttributeError\<close>.
\<close>

definition get_lang :: "int \<Rightarrow> disk \<Rightarrow> (py_error + string) \<times> disk" where
  "get_lang uid d =
     (let (u, d1) = get_user uid d;
          v = py_get u ''lang'';
          x = (if truthy v then v else JStr [])
      in (case x of
            JStr s \<Rightarrow>
              (let lang = str_lower (str_strip s)
               in (Inr (if lang \<in> set SUPPORTED_LANGS then lang else DEFAULT_LANG), d1))
          | _ \<Rightarrow> (Inl AttributeError, d1)))"

text \<open>\<^verbatim>\<open>set_lang\<close>, for the str its signature asks for.\<close>

definition set_lang :: "write_stop option \<Rightarrow> int \<Rightarrow> int \<Rightarrow> string \<Rightarrow> disk \<Rightarrow> disk" where
  "set_lang stop now uid lang d =
     (let lang1 = str_lower (str_strip (if lang \<noteq> [] then lang else []));
          lang2 = (if lang1 \<notin> set SUPPORTED_LANGS then DEFAULT_LANG else lang1)
      in snd (upsert_user stop uid [(''lang'', JStr lang2), (''lang_ts'', JInt now)] d))"

section \<open>Operator commands\<close>

text \<open>\<^verbatim>\<open>is_admin\<close>; \<open>admin_id\<close> is the stripped environment variable \<^verbatim>\<open>ADMIN_ID\<close>.\<close>

definition is_admin :: "string \<Rightarrow> int \<Rightarrow> bool" where
  "is_admin admin_id uid = (if admin_id = [] then True else str_int uid = admin_id)"

text \<open>
  What a handler reads of an update: whether it carries a message, and the id of the
  effective user when there is one. The replies of the two commands are named after the
  texts the source sends.
\<close>

record update =
  has_message :: bool
  effective_user :: "int option"

datatype reply =
    NoAccess
  | UsageApprove
  | UsageDeny
  | BadPlan
  | BadUserId
  | Confirmed int string
  | Refused int string

text \<open>
  \<^verbatim>\<open>cmd_approve\<close>, up to its reply to the operator. The message to the user that
  follows is sent after the ledger write, inside a \<^verbatim>\<open>try\<close>, and writes nothing.
\<close>

definition cmd_approve ::
  "string \<Rightarrow> write_stop option \<Rightarrow> int \<Rightarrow> update \<Rightarrow> string list \<Rightarrow> disk \<Rightarrow> reply option \<times> disk" where
  "cmd_approve admin_id stop now upd args d =
     (if \<not> has_message upd then (None, d)
      else if (case effective_user upd of None \<Rightarrow> True | Some a \<Rightarrow> \<not> is_admin admin_id a)
      then (Some NoAccess, d)
      else (case args of
              uid_str # plan_arg # _ \<Rightarrow>
                (let plan = str_upper plan_arg
                 in if \<not> in_PRICES plan then (Some BadPlan, d)
                    else (case py_int uid_str of
                            None \<Rightarrow> (Some BadUserId, d)
                          | Some uid \<Rightarrow>
                              (Some (Confirmed uid plan),
                               set_purchase_status stop now uid plan ''approved'' d)))
            | _ \<Rightarrow> (Some UsageApprove, d)))"

text \<open>\<^verbatim>\<open>cmd_deny\<close>, likewise.\<close>

definition cmd_deny ::
  "string \<Rightarrow> write_stop option \<Rightarrow> int \<Rightarrow> update \<Rightarrow> string list \<Rightarrow> disk \<Rightarrow> reply option \<times> disk" where
  "cmd_deny admin_id stop now upd args d =
     (if \<not> has_message upd then (None, d)
      else if (case effective_user upd of None \<Rightarrow> True | Some a \<Rightarrow> \<not> is_admin admin_id a)
      then (Some NoAccess, d)
      else (case args of
              uid_str # plan_arg # _ \<Rightarrow>
                (let plan = str_upper plan_arg
                 in if \<not> in_PRICES plan then (Some BadPlan, d)
                    else (case py_int uid_str of
                            None \<Rightarrow> (Some BadUserId, d)
                          | Some uid \<Rightarrow>
                              (Some (Refused uid plan),
                               set_purchase_status stop now uid plan ''denied'' d)))
            | _ \<Rightarrow> (Some UsageDeny, d)))"

section \<open>Button presses\<close>

text \<open>
  \<^verbatim>\<open>data.startswith(p)\<close>, and \<^verbatim>\<open>data.split(":", 1)[1]\<close> for a text that holds a
  colon: what follows the first one.
\<close>

definition starts_with :: "string \<Rightarrow> string \<Rightarrow> bool" where
  "starts_with p s = (take (length p) s = p)"

definition after_colon :: "string \<Rightarrow> string" where
  "after_colon s = tl (dropWhile (\<lambda>c. c \<noteq> CHR '':'') s)"

text \<open>
  A callback update: the payload of the callback query (\<open>None\<close> without a query,
  \<open>Some None\<close> for a query without data) and the effective user.
\<close>

record callback =
  query_data :: "string option option"
  callback_user :: "int option"

text \<open>
  \<^verbatim>\<open>on_callback\<close>, as far as the store goes. In each branch the write comes before
  the messages the handler sends.
\<close>

definition on_callback :: "write_stop option \<Rightarrow> int \<Rightarrow> callback \<Rightarrow> disk \<Rightarrow> disk" where
  "on_callback stop now cb d =
     (case query_data cb of
        None \<Rightarrow> d
      | Some qd \<Rightarrow>
          (case callback_user cb of
             None \<Rightarrow> d
           | Some uid \<Rightarrow>
               (let data = (case qd of None \<Rightarrow> [] | Some s \<Rightarrow> s)
                in if starts_with ''lang:'' data
                   then set_lang stop now uid (str_lower (str_strip (after_colon data))) d
                   else if starts_with ''plan:'' data
                   then (let plan = str_upper (after_colon data)
                         in if \<not> in_PRICES plan then d
                            else snd (upsert_user stop uid
                                   [(''last_selected_plan'', JStr plan),
                                    (''last_selected_plan_ts'', JInt now)] d))
                   else if starts_with ''paid:'' data
                   then (let plan = str_upper (after_colon data)
                         in if \<not> in_PRICES plan then d
                            else set_purchase_status stop now uid plan ''requested'' d)
                   else d)))"

section \<open>Notions of the specification\<close>

text \<open>
  The entry for a user and a plan, as the specification speaks of it: present when the
  user's record is an object, its \<^verbatim>\<open>purchases\<close> field is a mapping and the value
  under the plan is an object; absent or malformed otherwise.
\<close>

definition spec_entry :: "int \<Rightarrow> string \<Rightarrow> disk \<Rightarrow> jobj option" where
  "spec_entry uid plan d =
     (case map_of (fst (safe_read_json d)) (str_int uid) of
        Some (JObj r) \<Rightarrow>
          (case map_of r ''purchases'' of
             Some (JObj ps) \<Rightarrow> (case map_of ps plan of Some (JObj e) \<Rightarrow> Some e | _ \<Rightarrow> None)
           | _ \<Rightarrow> None)
      | _ \<Rightarrow> None)"

text \<open>The entry has status approved.\<close>

definition spec_approved :: "int \<Rightarrow> string \<Rightarrow> disk \<Rightarrow> bool" where
  "spec_approved uid plan d =
     (case spec_entry uid plan d of
        Some e \<Rightarrow> map_of e ''status'' = Some (JStr ''approved'')
      | None \<Rightarrow> False)"

text \<open>The closed plan set and its precedence, most privileged tier first: VIP, PRO, BASIC.\<close>

definition spec_plans :: "string list" where
  "spec_plans = [''BASIC'', ''PRO'', ''VIP'']"

definition spec_precedence :: "string \<Rightarrow> nat" where
  "spec_precedence plan =
     (if plan = ''VIP'' then 3 else if plan = ''PRO'' then 2 else if plan = ''BASIC'' then 1 else 0)"

text \<open>The caller is the operator: the configured id, or anyone when none is configured.\<close>

definition spec_operator :: "string \<Rightarrow> update \<Rightarrow> bool" where
  "spec_operator admin_id upd =
     (case effective_user upd of
        None \<Rightarrow> False
      | Some a \<Rightarrow> admin_id = [] \<or> str_int a = admin_id)"

text \<open>The arguments are well formed: a numeric user id and a plan of the closed set.\<close>

definition spec_well_formed :: "string list \<Rightarrow> bool" where
  "spec_well_formed args =
     (case args of
        uid_str # plan_arg # _ \<Rightarrow> py_int uid_str \<noteq> None \<and> str_upper plan_arg \<in> set spec_plans
      | _ \<Rightarrow> False)"

text \<open>
  A backing file the store cannot use, as the specification lists them: missing, empty,
  unreadable, malformed, or JSON that is not an object.
\<close>

definition spec_unusable :: "disk_file \<Rightarrow> bool" where
  "spec_unusable f =
     (f = Missing \<or> f = Blank \<or> f = Unreadable \<or> f = Malformed \<or>
      (case f of Json v \<Rightarrow> (case v of JObj m \<Rightarrow> False | _ \<Rightarrow> True) | _ \<Rightarrow> False))"

section \<open>Reading: what the accessors compute\<close>

lemma safe_read_json_snd: "snd (safe_read_json d) = d"
  by (simp add: safe_read_json_def split: disk_file.splits json.splits)

lemma get_user_snd: "snd (get_user uid d) = d"
  using safe_read_json_snd [of d]
  by (auto simp add: get_user_def split: prod.splits json.splits)

lemma get_user_fst:
  "fst (get_user uid d) =
     (case map_of (fst (safe_read_json d)) (str_int uid) of Some (JObj r) \<Rightarrow> r | _ \<Rightarrow> [])"
  by (simp add: get_user_def py_get_or_def split: prod.splits json.splits option.splits)

lemma get_user_eq:
  "get_user uid d =
     ((case map_of (fst (safe_read_json d)) (str_int uid) of Some (JObj r) \<Rightarrow> r | _ \<Rightarrow> []), d)"
  using get_user_fst [of uid d] get_user_snd [of uid d] by (metis prod.collapse)

lemma plan_approved_spec:
  assumes "py_get_or (fst (get_user uid d)) ''purchases'' (JObj []) = JObj ps"
  shows "plan_approved ps plan = spec_approved uid plan d"
  using assms
  by (auto simp add: get_user_fst plan_approved_def spec_approved_def spec_entry_def py_get_def py_get_or_def
      split: option.splits json.splits)

lemma not_dict_no_entry:
  assumes "\<forall>ps. py_get_or (fst (get_user uid d)) ''purchases'' (JObj []) \<noteq> JObj ps"
  shows "spec_approved uid plan d = False"
  using assms
  by (auto simp add: get_user_fst spec_approved_def spec_entry_def py_get_or_def
      split: option.splits json.splits)

lemma user_has_access_spec:
  "fst (user_has_access uid d) =
     (spec_approved uid ''BASIC'' d \<or> spec_approved uid ''PRO'' d \<or> spec_approved uid ''VIP'' d)"
proof (cases "py_get_or (fst (get_user uid d)) ''purchases'' (JObj [])")
  case (JObj ps)
  then show ?thesis
    using plan_approved_spec [OF JObj]
    by (simp add: user_has_access_def get_user_eq)
qed (simp_all add: user_has_access_def get_user_eq not_dict_no_entry)

lemma get_approved_plan_spec:
  "fst (get_approved_plan uid d) =
     (if spec_approved uid ''VIP'' d then Some ''VIP''
      else if spec_approved uid ''PRO'' d then Some ''PRO''
      else if spec_approved uid ''BASIC'' d then Some ''BASIC'' else None)"
proof (cases "py_get_or (fst (get_user uid d)) ''purchases'' (JObj [])")
  case (JObj ps)
  then show ?thesis
    using plan_approved_spec [OF JObj]
    by (simp add: get_approved_plan_def get_user_eq)
qed (simp_all add: get_approved_plan_def get_user_eq not_dict_no_entry)

section \<open>Writing: what a completed write leaves in the store\<close>

lemma read_after_write: "fst (safe_read_json (safe_write_json None data d)) = data"
  by (simp add: safe_read_json_def safe_write_json_def os_replace_def stage_full_def stage_open_def)

lemma safe_read_json_eq: "safe_read_json d = (fst (safe_read_json d), d)"
  using safe_read_json_snd [of d] by (metis prod.collapse)

lemma upsert_user_users:
  "fst (safe_read_json (snd (upsert_user None uid patch d))) =
     AList.update (str_int uid) (JObj (py_update (fst (get_user uid d)) patch)) (fst (safe_read_json d))"
proof -
  obtain users where r: "safe_read_json d = (users, d)"
    using safe_read_json_eq by blast
  show ?thesis
    by (simp add: upsert_user_def r read_after_write py_setitem_def get_user_fst py_get_or_def Let_def
        split: option.splits)
qed

lemma set_purchase_status_users:
  "fst (safe_read_json (set_purchase_status None now uid plan status d)) =
     AList.update (str_int uid)
       (JObj (AList.update ''purchases''
          (JObj (AList.update plan (JObj [(''status'', JStr status), (''ts'', JInt now)])
             (case py_get_or (fst (get_user uid d)) ''purchases'' (JObj []) of JObj p \<Rightarrow> p | _ \<Rightarrow> [])))
          (fst (get_user uid d))))
       (fst (safe_read_json d))"
proof -
  obtain u where g: "get_user uid d = (u, d)"
    using get_user_eq by blast
  show ?thesis
    using upsert_user_users [of uid "[(''purchases'', JObj (py_setitem (case py_get_or u ''purchases'' (JObj []) of JObj p \<Rightarrow> p | _ \<Rightarrow> []) plan (JObj [(''status'', JStr status), (''ts'', JInt now)])))]" d]
    using get_user_fst [of uid d]
    by (simp add: set_purchase_status_def g py_update_def py_setitem_def Let_def)
qed

lemma spec_entry_set_same:
  "spec_entry uid plan' (set_purchase_status None now uid plan status d) =
     (if plan' = plan then Some [(''status'', JStr status), (''ts'', JInt now)]
      else spec_entry uid plan' d)"
  apply (subst spec_entry_def)
  apply (subst set_purchase_status_users)
  apply (simp add: update_conv' get_user_fst py_get_or_def spec_entry_def split: option.splits json.splits)
  done

lemma users_other_key:
  "k \<noteq> str_int uid \<Longrightarrow>
   map_of (fst (safe_read_json (set_purchase_status None now uid plan status d))) k =
   map_of (fst (safe_read_json d)) k"
  by (simp add: set_purchase_status_users update_conv')

section \<open>User ids and their keys\<close>

lemma digit_char_inj: "a < 10 \<Longrightarrow> b < 10 \<Longrightarrow> digit_char a = digit_char b \<Longrightarrow> a = b"
proof -
  assume a: "a < 10" and b: "b < 10" and e: "digit_char a = digit_char b"
  from e have "(of_char (digit_char a) :: nat) = of_char (digit_char b)" by simp
  with a b show "a = b" by (simp add: digit_char_def)
qed

lemma str_nat_not_Nil: "str_nat n \<noteq> []"
  by (subst str_nat.simps) simp

lemma str_nat_digits: "c \<in> set (str_nat n) \<Longrightarrow> is_digit c"
proof (induction n rule: str_nat.induct)
  case (1 n)
  show ?case
  proof (cases "n < 10")
    case True
    with "1.prems" have "c = digit_char n" by (subst (asm) str_nat.simps) simp
    with True show ?thesis by (simp add: is_digit_def digit_char_def)
  next
    case False
    with "1.prems" have "c \<in> set (str_nat (n div 10)) \<or> c = digit_char (n mod 10)"
      by (subst (asm) str_nat.simps) auto
    then show ?thesis
    proof
      assume "c \<in> set (str_nat (n div 10))"
      with "1.IH" False show ?thesis by simp
    next
      assume "c = digit_char (n mod 10)"
      moreover have "n mod 10 < 10" by simp
      ultimately show ?thesis by (simp add: is_digit_def digit_char_def)
    qed
  qed
qed

lemma str_nat_inj: "str_nat m = str_nat n \<Longrightarrow> m = n"
proof (induction m arbitrary: n rule: str_nat.induct)
  case (1 m)
  show ?case
  proof (cases "m < 10")
    case m: True
    show ?thesis
    proof (cases "n < 10")
      case True
      with m "1.prems" show ?thesis
        by (simp add: str_nat.simps [of m] str_nat.simps [of n] digit_char_inj)
    next
      case False
      with m "1.prems" str_nat_not_Nil [of "n div 10"] show ?thesis
        by (simp add: str_nat.simps [of m] str_nat.simps [of n] Cons_eq_append_conv)
    qed
  next
    case m: False
    show ?thesis
    proof (cases "n < 10")
      case True
      with m "1.prems" str_nat_not_Nil [of "m div 10"] show ?thesis
        by (simp add: str_nat.simps [of m] str_nat.simps [of n] append_eq_Cons_conv)
    next
      case False
      with m "1.prems" have e: "str_nat (m div 10) = str_nat (n div 10)"
        and c: "digit_char (m mod 10) = digit_char (n mod 10)"
        by (simp_all add: str_nat.simps [of m] str_nat.simps [of n])
      from "1.IH" [OF m e] have "m div 10 = n div 10" .
      moreover from c have "m mod 10 = n mod 10" by (simp add: digit_char_inj)
      ultimately show ?thesis by (metis div_mult_mod_eq)
    qed
  qed
qed

lemma str_int_inj: "str_int i = str_int j \<Longrightarrow> i = j"
proof -
  assume e: "str_int i = str_int j"
  have nd: "\<not> is_digit CHR ''-''" by (simp add: is_digit_def)
  have hd: "\<And>n. hd (str_nat n) \<noteq> CHR ''-''"
    using str_nat_digits str_nat_not_Nil nd by (metis hd_in_set)
  show "i = j"
  proof (cases "i < 0")
    case i: True
    show ?thesis
    proof (cases "j < 0")
      case True
      with i e have "nat (- i) = nat (- j)" by (simp add: str_int_def str_nat_inj)
      with i True show ?thesis by simp
    next
      case False
      with i e have "str_nat (nat j) = CHR ''-'' # str_nat (nat (- i))" by (simp add: str_int_def)
      with hd [of "nat j"] show ?thesis by simp
    qed
  next
    case i: False
    show ?thesis
    proof (cases "j < 0")
      case True
      with i e have "str_nat (nat i) = CHR ''-'' # str_nat (nat (- j))" by (simp add: str_int_def)
      with hd [of "nat i"] show ?thesis by simp
    next
      case False
      with i e have "nat i = nat j" by (simp add: str_int_def str_nat_inj)
      with i False show ?thesis by simp
    qed
  qed
qed

section \<open>Commands, locale and ledger writes\<close>

lemma in_PRICES_spec: "in_PRICES plan = (plan \<in> set spec_plans)"
  by (auto simp add: in_PRICES_def PRICES_def spec_plans_def)

lemma not_operator:
  "(case effective_user upd of None \<Rightarrow> True | Some a \<Rightarrow> \<not> is_admin admin_id a) = (\<not> spec_operator admin_id upd)"
  by (simp add: spec_operator_def is_admin_def split: option.splits)

lemma cmd_approve_cases:
  "cmd_approve admin_id stop now upd args d =
     (if \<not> has_message upd then (None, d)
      else if \<not> spec_operator admin_id upd then (Some NoAccess, d)
      else if \<not> spec_well_formed args
           then (case args of
                   uid_str # plan_arg # _ \<Rightarrow>
                     if str_upper plan_arg \<notin> set spec_plans then (Some BadPlan, d) else (Some BadUserId, d)
                 | _ \<Rightarrow> (Some UsageApprove, d))
      else (Some (Confirmed (the (py_int (hd args))) (str_upper (hd (tl args)))),
            set_purchase_status stop now (the (py_int (hd args))) (str_upper (hd (tl args))) ''approved'' d))"
  unfolding cmd_approve_def not_operator in_PRICES_spec
  by (auto simp add: spec_well_formed_def Let_def split: list.splits option.splits)

lemma cmd_deny_cases:
  "cmd_deny admin_id stop now upd args d =
     (if \<not> has_message upd then (None, d)
      else if \<not> spec_operator admin_id upd then (Some NoAccess, d)
      else if \<not> spec_well_formed args
           then (case args of
                   uid_str # plan_arg # _ \<Rightarrow>
                     if str_upper plan_arg \<notin> set spec_plans then (Some BadPlan, d) else (Some BadUserId, d)
                 | _ \<Rightarrow> (Some UsageDeny, d))
      else (Some (Refused (the (py_int (hd args))) (str_upper (hd (tl args)))),
            set_purchase_status stop now (the (py_int (hd args))) (str_upper (hd (tl args))) ''denied'' d))"
  unfolding cmd_deny_def not_operator in_PRICES_spec
  by (auto simp add: spec_well_formed_def Let_def split: list.splits option.splits)

lemma get_user_after_upsert:
  "fst (get_user uid (snd (upsert_user None uid patch d))) = py_update (fst (get_user uid d)) patch"
  by (simp add: get_user_fst [of uid "snd (upsert_user None uid patch d)"] upsert_user_users update_conv')

lemma supported_normal: "l \<in> set SUPPORTED_LANGS \<Longrightarrow> str_lower (str_strip l) = l"
proof -
  have r: "str_lower (str_strip ''ru'') = ''ru''" by code_simp
  have t: "str_lower (str_strip ''tj'') = ''tj''" by code_simp
  assume "l \<in> set SUPPORTED_LANGS"
  then have "l = ''ru'' \<or> l = ''tj''" by (simp add: SUPPORTED_LANGS_def)
  with r t show ?thesis by blast
qed

lemma default_supported: "DEFAULT_LANG \<in> set SUPPORTED_LANGS"
  by (simp add: DEFAULT_LANG_def SUPPORTED_LANGS_def)

lemma empty_not_supported: "[] \<notin> set SUPPORTED_LANGS"
  by (simp add: SUPPORTED_LANGS_def)

lemma get_lang_str:
  "py_get (fst (get_user uid d)) ''lang'' = JStr s \<Longrightarrow>
   get_lang uid d =
     (Inr (if str_lower (str_strip s) \<in> set SUPPORTED_LANGS then str_lower (str_strip s) else DEFAULT_LANG), d)"
proof -
  assume a: "py_get (fst (get_user uid d)) ''lang'' = JStr s"
  obtain u where g: "get_user uid d = (u, d)" using get_user_eq by blast
  have e: "str_lower (str_strip []) = []" by (simp add: str_lower_def str_strip_def)
  from a g show ?thesis
    by (cases "s = []") (simp_all add: get_lang_def Let_def e empty_not_supported)
qed

lemma get_lang_falsy:
  "\<not> truthy (py_get (fst (get_user uid d)) ''lang'') \<Longrightarrow> get_lang uid d = (Inr DEFAULT_LANG, d)"
proof -
  assume a: "\<not> truthy (py_get (fst (get_user uid d)) ''lang'')"
  obtain u where g: "get_user uid d = (u, d)" using get_user_eq by blast
  have e: "str_lower (str_strip []) = []" by (simp add: str_lower_def str_strip_def)
  from a g show ?thesis
    by (simp add: get_lang_def Let_def e empty_not_supported)
qed

lemma get_lang_supported: "fst (get_lang uid d) = Inr l \<Longrightarrow> l \<in> set SUPPORTED_LANGS"
proof -
  assume a: "fst (get_lang uid d) = Inr l"
  obtain u where g: "get_user uid d = (u, d)" using get_user_eq by blast
  from a g show ?thesis
    by (auto simp add: get_lang_def Let_def default_supported split: json.splits if_splits)
qed

lemma get_lang_non_str:
  "fst (get_lang 5 \<lparr>users_json = Json (JObj [(''5'', JObj [(''lang'', JInt 5)])]), users_tmp = Missing\<rparr>) =
     Inl AttributeError"
  by code_simp

lemma set_lang_record:
  "map_of (fst (get_user uid (set_lang None now uid L d))) ''lang'' =
     Some (JStr (if str_lower (str_strip L) \<in> set SUPPORTED_LANGS then str_lower (str_strip L) else DEFAULT_LANG))"
  by (simp add: set_lang_def Let_def get_user_after_upsert py_update_def py_setitem_def update_conv')

lemma spec_approved_set:
  "spec_approved uid plan' (set_purchase_status None now uid plan status d) =
     (if plan' = plan then status = ''approved'' else spec_approved uid plan' d)"
  by (simp add: spec_approved_def spec_entry_set_same)

lemma spec_entry_set_other_user:
  "uid' \<noteq> uid \<Longrightarrow>
   spec_entry uid' plan' (set_purchase_status None now uid plan status d) = spec_entry uid' plan' d"
proof -
  assume "uid' \<noteq> uid"
  then have "str_int uid' \<noteq> str_int uid"
    using str_int_inj by blast
  then show ?thesis
    by (simp add: spec_entry_def users_other_key)
qed

lemma get_purchase_status_spec:
  "fst (get_purchase_status uid plan d) =
     (case spec_entry uid plan d of
        None \<Rightarrow> Str ''none''
      | Some e \<Rightarrow> py_str (py_get_or e ''status'' (JStr ''none'')))"
  by (auto simp add: get_purchase_status_def get_user_eq spec_entry_def py_get_or_def py_str_def
      split: option.splits json.splits)

lemma on_callback_paid:
  "on_callback stop now \<lparr>query_data = Some (Some (''paid:'' @ plan_arg)), callback_user = Some uid\<rparr> d =
     (if str_upper plan_arg \<in> set spec_plans
      then set_purchase_status stop now uid (str_upper plan_arg) ''requested'' d else d)"
  by (simp add: on_callback_def starts_with_def after_colon_def in_PRICES_spec Let_def)

lemma cmd_approve_ok:
  assumes "has_message upd" "spec_operator admin_id upd" "py_int uid_str = Some uid"
    "str_upper plan_arg \<in> set spec_plans"
  shows "cmd_approve admin_id stop now upd (uid_str # plan_arg # rest) d =
     (Some (Confirmed uid (str_upper plan_arg)),
      set_purchase_status stop now uid (str_upper plan_arg) ''approved'' d)"
  using assms by (simp add: cmd_approve_cases spec_well_formed_def)

lemma cmd_deny_ok:
  assumes "has_message upd" "spec_operator admin_id upd" "py_int uid_str = Some uid"
    "str_upper plan_arg \<in> set spec_plans"
  shows "cmd_deny admin_id stop now upd (uid_str # plan_arg # rest) d =
     (Some (Refused uid (str_upper plan_arg)),
      set_purchase_status stop now uid (str_upper plan_arg) ''denied'' d)"
  using assms by (simp add: cmd_deny_cases spec_well_formed_def)

section \<open>Claims\<close>

text \<open>
  C1, as amended. The three operations set the status without looking at the one
  before: from any store, an approve command from the operator with well-formed
  arguments leaves the entry approved, such a deny command leaves it denied, and an
  \<^verbatim>\<open>I paid\<close> press for a plan of the closed set leaves it requested, each with the
  current time as its stamp, when the write completes. The entry of every other user and
  of every other plan is the one from before.
\<close>

theorem ledger_operations_force_status:
  assumes "str_upper plan_arg = plan" and "plan \<in> set spec_plans"
  shows
    "(has_message upd \<and> spec_operator admin_id upd \<and> py_int uid_str = Some uid \<longrightarrow>
        spec_entry uid plan (snd (cmd_approve admin_id None now upd (uid_str # plan_arg # rest) d)) =
          Some [(''status'', JStr ''approved''), (''ts'', JInt now)] \<and>
        fst (get_purchase_status uid plan (snd (cmd_approve admin_id None now upd (uid_str # plan_arg # rest) d))) =
          Str ''approved'' \<and>
        spec_entry uid plan (snd (cmd_deny admin_id None now upd (uid_str # plan_arg # rest) d)) =
          Some [(''status'', JStr ''denied''), (''ts'', JInt now)] \<and>
        fst (get_purchase_status uid plan (snd (cmd_deny admin_id None now upd (uid_str # plan_arg # rest) d))) =
          Str ''denied'' \<and>
        (uid' \<noteq> uid \<or> plan' \<noteq> plan \<longrightarrow>
           spec_entry uid' plan' (snd (cmd_approve admin_id None now upd (uid_str # plan_arg # rest) d)) =
             spec_entry uid' plan' d \<and>
           spec_entry uid' plan' (snd (cmd_deny admin_id None now upd (uid_str # plan_arg # rest) d)) =
             spec_entry uid' plan' d)) \<and>
     spec_entry uid plan
       (on_callback None now \<lparr>query_data = Some (Some (''paid:'' @ plan_arg)), callback_user = Some uid\<rparr> d) =
       Some [(''status'', JStr ''requested''), (''ts'', JInt now)] \<and>
     fst (get_purchase_status uid plan
       (on_callback None now \<lparr>query_data = Some (Some (''paid:'' @ plan_arg)), callback_user = Some uid\<rparr> d)) =
       Str ''requested'' \<and>
     (uid' \<noteq> uid \<or> plan' \<noteq> plan \<longrightarrow>
        spec_entry uid' plan'
          (on_callback None now \<lparr>query_data = Some (Some (''paid:'' @ plan_arg)), callback_user = Some uid\<rparr> d) =
        spec_entry uid' plan' d)"
proof -
  have p: "str_upper plan_arg \<in> set spec_plans"
    using assms by simp
  have s: "\<And>status. spec_entry uid plan (set_purchase_status None now uid plan status d) =
      Some [(''status'', JStr status), (''ts'', JInt now)]"
    by (simp add: spec_entry_set_same)
  have g: "\<And>status. fst (get_purchase_status uid plan (set_purchase_status None now uid plan status d)) =
      Str status"
    by (simp add: get_purchase_status_spec s py_get_or_def py_str_def)
  have f: "\<And>status. uid' \<noteq> uid \<or> plan' \<noteq> plan \<Longrightarrow>
      spec_entry uid' plan' (set_purchase_status None now uid plan status d) = spec_entry uid' plan' d"
  proof -
    fix status
    assume "uid' \<noteq> uid \<or> plan' \<noteq> plan"
    then show "spec_entry uid' plan' (set_purchase_status None now uid plan status d) = spec_entry uid' plan' d"
      by (cases "uid' = uid") (simp_all add: spec_entry_set_same spec_entry_set_other_user)
  qed
  have c: "on_callback None now \<lparr>query_data = Some (Some (''paid:'' @ plan_arg)), callback_user = Some uid\<rparr> d =
      set_purchase_status None now uid plan ''requested'' d"
    using p assms(1) on_callback_paid [of None now plan_arg uid d] by simp
  have ad: "has_message upd \<and> spec_operator admin_id upd \<and> py_int uid_str = Some uid \<Longrightarrow>
      snd (cmd_approve admin_id None now upd (uid_str # plan_arg # rest) d) =
        set_purchase_status None now uid plan ''approved'' d \<and>
      snd (cmd_deny admin_id None now upd (uid_str # plan_arg # rest) d) =
        set_purchase_status None now uid plan ''denied'' d"
    using p assms(1) by (simp add: cmd_approve_ok cmd_deny_ok)
  show ?thesis
    unfolding c
    using s g f ad by auto
qed

theorem ledger_operations_force_status_witness:
  "str_upper ''pro'' = ''PRO'' \<and>
   ''PRO'' \<in> set spec_plans \<and>
   has_message \<lparr>has_message = True, effective_user = Some 1\<rparr> \<and>
   spec_operator ''1'' \<lparr>has_message = True, effective_user = Some 1\<rparr> \<and>
   py_int ''42'' = Some 42 \<and>
   spec_entry 42 ''PRO'' \<lparr>users_json = Json (JObj [(''42'', JObj [(''purchases'', JObj [(''PRO'', JObj [(''status'', JStr ''denied''), (''ts'', JInt 1600)])])]), (''7'', JObj [(''purchases'', JObj [(''PRO'', JObj [(''status'', JStr ''requested''), (''ts'', JInt 1500)])])])]), users_tmp = Missing\<rparr> =
     Some [(''status'', JStr ''denied''), (''ts'', JInt 1600)] \<and>
   spec_entry 42 ''PRO'' (snd (cmd_approve ''1'' None 1700 \<lparr>has_message = True, effective_user = Some 1\<rparr> [''42'', ''pro'']
     \<lparr>users_json = Json (JObj [(''42'', JObj [(''purchases'', JObj [(''PRO'', JObj [(''status'', JStr ''denied''), (''ts'', JInt 1600)])])]), (''7'', JObj [(''purchases'', JObj [(''PRO'', JObj [(''status'', JStr ''requested''), (''ts'', JInt 1500)])])])]), users_tmp = Missing\<rparr>)) =
     Some [(''status'', JStr ''approved''), (''ts'', JInt 1700)] \<and>
   fst (get_purchase_status 42 ''PRO'' (on_callback None 1700 \<lparr>query_data = Some (Some (''paid:'' @ ''pro'')), callback_user = Some 42\<rparr>
     \<lparr>users_json = Json (JObj [(''42'', JObj [(''purchases'', JObj [(''PRO'', JObj [(''status'', JStr ''denied''), (''ts'', JInt 1600)])])]), (''7'', JObj [(''purchases'', JObj [(''PRO'', JObj [(''status'', JStr ''requested''), (''ts'', JInt 1500)])])])]), users_tmp = Missing\<rparr>)) =
     Str ''requested'' \<and>
   spec_entry 7 ''PRO'' (snd (cmd_deny ''1'' None 1700 \<lparr>has_message = True, effective_user = Some 1\<rparr> [''42'', ''pro'']
     \<lparr>users_json = Json (JObj [(''42'', JObj [(''purchases'', JObj [(''PRO'', JObj [(''status'', JStr ''denied''), (''ts'', JInt 1600)])])]), (''7'', JObj [(''purchases'', JObj [(''PRO'', JObj [(''status'', JStr ''requested''), (''ts'', JInt 1500)])])])]), users_tmp = Missing\<rparr>)) =
     spec_entry 7 ''PRO'' \<lparr>users_json = Json (JObj [(''42'', JObj [(''purchases'', JObj [(''PRO'', JObj [(''status'', JStr ''denied''), (''ts'', JInt 1600)])])]), (''7'', JObj [(''purchases'', JObj [(''PRO'', JObj [(''status'', JStr ''requested''), (''ts'', JInt 1500)])])])]), users_tmp = Missing\<rparr>"
proof -
  let ?u = "\<lparr>has_message = True, effective_user = Some 1\<rparr>"
  let ?d = "\<lparr>users_json = Json (JObj [(''42'', JObj [(''purchases'', JObj [(''PRO'', JObj [(''status'', JStr ''denied''), (''ts'', JInt 1600)])])]), (''7'', JObj [(''purchases'', JObj [(''PRO'', JObj [(''status'', JStr ''requested''), (''ts'', JInt 1500)])])])]), users_tmp = Missing\<rparr>"
  have h1: "str_upper ''pro'' = ''PRO''" by code_simp
  have h2: "''PRO'' \<in> set spec_plans" by code_simp
  have h3: "has_message ?u" by simp
  have h4: "spec_operator ''1'' ?u" by code_simp
  have h5: "py_int ''42'' = Some 42" by code_simp
  have b: "spec_entry 42 ''PRO'' ?d = Some [(''status'', JStr ''denied''), (''ts'', JInt 1600)]"
    by code_simp
  have n: "(7::int) \<noteq> 42" by simp
  show ?thesis
    using h1 h2 h3 h4 h5 b n
      ledger_operations_force_status [OF h1 h2, of ?u "''1''" "''42''" 42 1700 "[]" ?d 7 "''PRO''"]
    by blast
qed

text \<open>
  C1 as stated fails: on a store without any record, one approve command moves the
  status of the pair from none to approved; requested is never passed.
\<close>

theorem approve_skips_requested_counterexample:
  "fst (get_purchase_status 42 ''VIP'' \<lparr>users_json = Missing, users_tmp = Missing\<rparr>) = Str ''none'' \<and>
   fst (get_purchase_status 42 ''VIP''
     (snd (cmd_approve ''1'' None 1700 \<lparr>has_message = True, effective_user = Some 1\<rparr> [''42'', ''VIP'']
        \<lparr>users_json = Missing, users_tmp = Missing\<rparr>))) = Str ''approved''"
  by code_simp

text \<open>
  C2. After an approve command from the operator with well-formed arguments for user
  \<open>uid\<close> and plan \<open>plan\<close>, whose write completes, \<^verbatim>\<open>get_approved_plan\<close> returns a
  plan of the closed set that is approved, whose precedence is at least that of
  \<open>plan\<close> and at least that of every approved plan, and that is \<open>plan\<close> itself unless
  it was approved before. After such a deny command \<^verbatim>\<open>user_has_access\<close> is true
  exactly when another plan of the closed set has an approved entry, and those entries
  are the ones from before the command.
\<close>

theorem approve_then_plan_deny_then_access:
  assumes "has_message upd" and "spec_operator admin_id upd"
    and "py_int uid_str = Some uid"
    and "str_upper plan_arg = plan" and "plan \<in> set spec_plans"
  shows
    "(case fst (get_approved_plan uid (snd (cmd_approve admin_id None now upd (uid_str # plan_arg # rest) d))) of
        None \<Rightarrow> False
      | Some q \<Rightarrow>
          q \<in> set spec_plans \<and>
          spec_precedence plan \<le> spec_precedence q \<and>
          spec_approved uid q (snd (cmd_approve admin_id None now upd (uid_str # plan_arg # rest) d)) \<and>
          (\<forall>r \<in> set spec_plans.
             spec_approved uid r (snd (cmd_approve admin_id None now upd (uid_str # plan_arg # rest) d)) \<longrightarrow>
             spec_precedence r \<le> spec_precedence q) \<and>
          (q \<noteq> plan \<longrightarrow> spec_approved uid q d)) \<and>
     fst (user_has_access uid (snd (cmd_deny admin_id None now upd (uid_str # plan_arg # rest) d))) =
       (\<exists>q \<in> set spec_plans. q \<noteq> plan \<and>
          spec_approved uid q (snd (cmd_deny admin_id None now upd (uid_str # plan_arg # rest) d))) \<and>
     (\<forall>q \<in> set spec_plans. q \<noteq> plan \<longrightarrow>
        spec_approved uid q (snd (cmd_deny admin_id None now upd (uid_str # plan_arg # rest) d)) =
        spec_approved uid q d)"
proof -
  have p: "str_upper plan_arg \<in> set spec_plans"
    using assms(4,5) by simp
  have a: "snd (cmd_approve admin_id None now upd (uid_str # plan_arg # rest) d) =
      set_purchase_status None now uid plan ''approved'' d"
    using cmd_approve_ok [OF assms(1,2,3) p] assms(4) by simp
  have n: "snd (cmd_deny admin_id None now upd (uid_str # plan_arg # rest) d) =
      set_purchase_status None now uid plan ''denied'' d"
    using cmd_deny_ok [OF assms(1,2,3) p] assms(4) by simp
  have c: "plan = ''BASIC'' \<or> plan = ''PRO'' \<or> plan = ''VIP''"
    using assms(5) by (simp add: spec_plans_def)
  have x: "''approved'' \<noteq> ''denied''"
    by simp
  show ?thesis
    unfolding a n
    using c
    by (elim disjE)
       (simp_all add: get_approved_plan_spec user_has_access_spec spec_approved_set
          spec_plans_def spec_precedence_def)
qed

theorem approve_then_plan_deny_then_access_witness:
  "has_message \<lparr>has_message = True, effective_user = Some 1\<rparr> \<and>
   spec_operator ''1'' \<lparr>has_message = True, effective_user = Some 1\<rparr> \<and>
   py_int ''42'' = Some 42 \<and>
   str_upper ''basic'' = ''BASIC'' \<and>
   ''BASIC'' \<in> set spec_plans \<and>
   fst (get_approved_plan 42 (snd (cmd_approve ''1'' None 1700 \<lparr>has_message = True, effective_user = Some 1\<rparr> [''42'', ''basic'']
     \<lparr>users_json = Json (JObj [(''42'', JObj [(''purchases'', JObj [(''PRO'', JObj [(''status'', JStr ''approved''), (''ts'', JInt 1600)]), (''VIP'', JObj [(''status'', JStr ''denied''), (''ts'', JInt 1650)])])])]), users_tmp = Missing\<rparr>))) = Some ''PRO'' \<and>
   fst (user_has_access 42 (snd (cmd_deny ''1'' None 1700 \<lparr>has_message = True, effective_user = Some 1\<rparr> [''42'', ''basic'']
     \<lparr>users_json = Json (JObj [(''42'', JObj [(''purchases'', JObj [(''PRO'', JObj [(''status'', JStr ''approved''), (''ts'', JInt 1600)]), (''VIP'', JObj [(''status'', JStr ''denied''), (''ts'', JInt 1650)])])])]), users_tmp = Missing\<rparr>))) =
     (\<exists>q \<in> set spec_plans. q \<noteq> ''BASIC'' \<and>
        spec_approved 42 q (snd (cmd_deny ''1'' None 1700 \<lparr>has_message = True, effective_user = Some 1\<rparr> [''42'', ''basic'']
     \<lparr>users_json = Json (JObj [(''42'', JObj [(''purchases'', JObj [(''PRO'', JObj [(''status'', JStr ''approved''), (''ts'', JInt 1600)]), (''VIP'', JObj [(''status'', JStr ''denied''), (''ts'', JInt 1650)])])])]), users_tmp = Missing\<rparr>)))"
proof -
  let ?u = "\<lparr>has_message = True, effective_user = Some 1\<rparr>"
  let ?d = "\<lparr>users_json = Json (JObj [(''42'', JObj [(''purchases'', JObj [(''PRO'', JObj [(''status'', JStr ''approved''), (''ts'', JInt 1600)]), (''VIP'', JObj [(''status'', JStr ''denied''), (''ts'', JInt 1650)])])])]), users_tmp = Missing\<rparr>"
  have h1: "has_message ?u" by simp
  have h2: "spec_operator ''1'' ?u" by code_simp
  have h3: "py_int ''42'' = Some 42" by code_simp
  have h4: "str_upper ''basic'' = ''BASIC''" by code_simp
  have h5: "''BASIC'' \<in> set spec_plans" by code_simp
  have r: "fst (get_approved_plan 42 (snd (cmd_approve ''1'' None 1700 ?u [''42'', ''basic''] ?d))) = Some ''PRO''"
    by code_simp
  show ?thesis
    using h1 h2 h3 h4 h5 r approve_then_plan_deny_then_access [OF h1 h2 h3 h4 h5, of 1700 "[]" ?d]
    by blast
qed

text \<open>
  C3. In every store state \<^verbatim>\<open>user_has_access\<close> is true exactly when one of the plans
  has an entry with status approved, and exactly when \<^verbatim>\<open>get_approved_plan\<close> returns
  a plan.
\<close>

theorem has_access_iff_approved_entry:
  "fst (user_has_access uid d) = (\<exists>plan \<in> set spec_plans. spec_approved uid plan d) \<and>
   fst (user_has_access uid d) = (fst (get_approved_plan uid d) \<noteq> None)"
  by (simp add: user_has_access_spec get_approved_plan_spec spec_plans_def)

theorem has_access_iff_approved_entry_witness:
  "fst (user_has_access 7 \<lparr>users_json = Json (JObj [(''7'', JObj [(''purchases'', JObj [(''PRO'', JObj [(''status'', JStr ''approved''), (''ts'', JInt 1700)])])])]), users_tmp = Missing\<rparr>) \<and>
   (\<exists>plan \<in> set spec_plans. spec_approved 7 plan \<lparr>users_json = Json (JObj [(''7'', JObj [(''purchases'', JObj [(''PRO'', JObj [(''status'', JStr ''approved''), (''ts'', JInt 1700)])])])]), users_tmp = Missing\<rparr>) \<and>
   fst (get_approved_plan 7 \<lparr>users_json = Json (JObj [(''7'', JObj [(''purchases'', JObj [(''PRO'', JObj [(''status'', JStr ''approved''), (''ts'', JInt 1700)])])])]), users_tmp = Missing\<rparr>) = Some ''PRO''"
proof -
  let ?d = "\<lparr>users_json = Json (JObj [(''7'', JObj [(''purchases'', JObj [(''PRO'', JObj [(''status'', JStr ''approved''), (''ts'', JInt 1700)])])])]), users_tmp = Missing\<rparr>"
  have p: "fst (get_approved_plan 7 ?d) = Some ''PRO''"
    by code_simp
  then have n: "fst (get_approved_plan 7 ?d) \<noteq> None"
    by simp
  have t: "fst (user_has_access 7 ?d) = (\<exists>plan \<in> set spec_plans. spec_approved 7 plan ?d) \<and>
     fst (user_has_access 7 ?d) = (fst (get_approved_plan 7 ?d) \<noteq> None)"
    by (rule has_access_iff_approved_entry)
  from t n have a: "fst (user_has_access 7 ?d)" by blast
  with t have e: "\<exists>plan \<in> set spec_plans. spec_approved 7 plan ?d" by blast
  from a e p show ?thesis by blast
qed

text \<open>
  C4. Wherever a write stops, the backing file is the old file or the whole new content,
  and a read of it gives the old mapping or the new one. A completed write is the
  staging of the whole content in the temporary file followed by one replace; just
  before the replace the temporary file holds the whole content and the backing file is
  untouched.
\<close>

theorem write_installs_whole_file:
  "(users_json (safe_write_json stop data d) = users_json d \<or>
    users_json (safe_write_json stop data d) = Json (JObj data)) \<and>
   (fst (safe_read_json (safe_write_json stop data d)) = fst (safe_read_json d) \<or>
    fst (safe_read_json (safe_write_json stop data d)) = data) \<and>
   safe_write_json None data d = os_replace (stage_full data (stage_open d)) \<and>
   users_tmp (stage_full data (stage_open d)) = Json (JObj data) \<and>
   users_json (stage_full data (stage_open d)) = users_json d \<and>
   users_json (safe_write_json None data d) = Json (JObj data)"
proof -
  have r: "\<And>x. fst (safe_read_json x) = (case users_json x of Json (JObj m) \<Rightarrow> m | _ \<Rightarrow> [])"
    by (simp add: safe_read_json_def split: disk_file.splits json.splits)
  show ?thesis
    unfolding r
    by (cases stop; cases "the stop")
       (simp_all add: safe_write_json_def os_replace_def stage_full_def stage_partial_def stage_open_def)
qed

theorem write_installs_whole_file_witness:
  "users_json (safe_write_json (Some InDumpPartial) [(''7'', JObj [])] \<lparr>users_json = Json (JObj []), users_tmp = Missing\<rparr>) = Json (JObj []) \<and>
   users_json (safe_write_json None [(''7'', JObj [])] \<lparr>users_json = Json (JObj []), users_tmp = Missing\<rparr>) = Json (JObj [(''7'', JObj [])])"
proof -
  let ?d = "\<lparr>users_json = Json (JObj []), users_tmp = Missing\<rparr>"
  let ?new = "[(''7'', JObj [])]"
  have a: "users_json (safe_write_json (Some InDumpPartial) ?new ?d) \<noteq> Json (JObj ?new)"
    by code_simp
  have o: "users_json ?d = Json (JObj [])"
    by simp
  have t1: "users_json (safe_write_json (Some InDumpPartial) ?new ?d) = users_json ?d \<or>
      users_json (safe_write_json (Some InDumpPartial) ?new ?d) = Json (JObj ?new)"
    using write_installs_whole_file [of "Some InDumpPartial" ?new ?d] by blast
  with a have c1: "users_json (safe_write_json (Some InDumpPartial) ?new ?d) = users_json ?d"
    by blast
  have c2: "users_json (safe_write_json None ?new ?d) = Json (JObj ?new)"
    using write_installs_whole_file [of None ?new ?d] by blast
  from c1 o c2 show ?thesis by (simp only:) 
qed

text \<open>
  C5. Unless the update carries a message, the caller is the operator and the arguments
  are well formed, \<^verbatim>\<open>cmd_approve\<close> and \<^verbatim>\<open>cmd_deny\<close> leave the disk as it was,
  wherever a write would have stopped. A message from a caller who is not the operator
  is answered with the denial; a message from the operator with malformed arguments is
  answered with the usage text, the plan error or the user id error.
\<close>

theorem approve_deny_guarded:
  assumes "\<not> (has_message upd \<and> spec_operator admin_id upd \<and> spec_well_formed args)"
  shows "snd (cmd_approve admin_id stop now upd args d) = d \<and>
         snd (cmd_deny admin_id stop now upd args d) = d \<and>
         (has_message upd \<and> \<not> spec_operator admin_id upd \<longrightarrow>
            fst (cmd_approve admin_id stop now upd args d) = Some NoAccess \<and>
            fst (cmd_deny admin_id stop now upd args d) = Some NoAccess) \<and>
         (has_message upd \<and> spec_operator admin_id upd \<longrightarrow>
            fst (cmd_approve admin_id stop now upd args d) \<in> {Some UsageApprove, Some BadPlan, Some BadUserId} \<and>
            fst (cmd_deny admin_id stop now upd args d) \<in> {Some UsageDeny, Some BadPlan, Some BadUserId})"
  using assms
  by (auto simp add: cmd_approve_cases cmd_deny_cases split: list.splits)

theorem approve_deny_guarded_witness:
  "\<not> (has_message \<lparr>has_message = True, effective_user = Some 5\<rparr> \<and>
       spec_operator ''100'' \<lparr>has_message = True, effective_user = Some 5\<rparr> \<and>
       spec_well_formed [''42'', ''VIP'']) \<and>
   snd (cmd_approve ''100'' None 1700 \<lparr>has_message = True, effective_user = Some 5\<rparr> [''42'', ''VIP''] \<lparr>users_json = Json (JObj []), users_tmp = Missing\<rparr>) =
     \<lparr>users_json = Json (JObj []), users_tmp = Missing\<rparr> \<and>
   snd (cmd_deny ''100'' None 1700 \<lparr>has_message = True, effective_user = Some 5\<rparr> [''42'', ''VIP''] \<lparr>users_json = Json (JObj []), users_tmp = Missing\<rparr>) =
     \<lparr>users_json = Json (JObj []), users_tmp = Missing\<rparr> \<and>
   fst (cmd_approve ''100'' None 1700 \<lparr>has_message = True, effective_user = Some 5\<rparr> [''42'', ''VIP''] \<lparr>users_json = Json (JObj []), users_tmp = Missing\<rparr>) = Some NoAccess \<and>
   fst (cmd_deny ''100'' None 1700 \<lparr>has_message = True, effective_user = Some 5\<rparr> [''42'', ''VIP''] \<lparr>users_json = Json (JObj []), users_tmp = Missing\<rparr>) = Some NoAccess"
proof -
  let ?u = "\<lparr>has_message = True, effective_user = Some 5\<rparr>"
  have o: "\<not> spec_operator ''100'' ?u"
    by code_simp
  then have h: "\<not> (has_message ?u \<and> spec_operator ''100'' ?u \<and> spec_well_formed [''42'', ''VIP''])"
    by blast
  have m: "has_message ?u"
    by simp
  show ?thesis
    using h o m approve_deny_guarded [OF h, of None 1700 "\<lparr>users_json = Json (JObj []), users_tmp = Missing\<rparr>"]
    by blast
qed

text \<open>
  C6, as amended. \<^verbatim>\<open>set_lang\<close> accepts every str: it strips and lower-cases the
  input, replaces the result by the default when it is not supported, and a completed
  write stores that value under \<^verbatim>\<open>lang\<close>; \<^verbatim>\<open>get_lang\<close> then returns it, and it
  is supported. On any store, \<^verbatim>\<open>get_lang\<close> returns the default for an absent or
  falsy stored value, the normalised value or the default for a stored str, and whatever
  it returns is supported.
\<close>

theorem set_lang_then_get_lang:
  "map_of (fst (get_user uid (set_lang None now uid L d))) ''lang'' =
     Some (JStr (if str_lower (str_strip L) \<in> set SUPPORTED_LANGS then str_lower (str_strip L) else DEFAULT_LANG)) \<and>
   fst (get_lang uid (set_lang None now uid L d)) =
     Inr (if str_lower (str_strip L) \<in> set SUPPORTED_LANGS then str_lower (str_strip L) else DEFAULT_LANG) \<and>
   (\<not> truthy (py_get (fst (get_user uid d)) ''lang'') \<longrightarrow> fst (get_lang uid d) = Inr DEFAULT_LANG) \<and>
   (py_get (fst (get_user uid d)) ''lang'' = JStr s \<longrightarrow>
      fst (get_lang uid d) =
        Inr (if str_lower (str_strip s) \<in> set SUPPORTED_LANGS then str_lower (str_strip s) else DEFAULT_LANG)) \<and>
   (fst (get_lang uid d) = Inr l \<longrightarrow> l \<in> set SUPPORTED_LANGS)"
proof -
  let ?stored = "if str_lower (str_strip L) \<in> set SUPPORTED_LANGS then str_lower (str_strip L) else DEFAULT_LANG"
  let ?d = "set_lang None now uid L d"
  have m: "map_of (fst (get_user uid ?d)) ''lang'' = Some (JStr ?stored)"
    by (rule set_lang_record)
  then have p: "py_get (fst (get_user uid ?d)) ''lang'' = JStr ?stored"
    by (simp add: py_get_def)
  have s: "?stored \<in> set SUPPORTED_LANGS"
    by (simp add: default_supported)
  have n: "str_lower (str_strip ?stored) = ?stored"
    using s by (rule supported_normal)
  have g: "fst (get_lang uid ?d) = Inr ?stored"
    using get_lang_str [OF p] s n by simp
  show ?thesis
    using m g get_lang_falsy [of uid d] get_lang_str [of uid d s] get_lang_supported [of uid d l]
    by simp
qed

theorem set_lang_then_get_lang_witness:
  "map_of (fst (get_user 5 (set_lang None 17 5 ''xx'' \<lparr>users_json = Json (JObj [(''5'', JObj [(''lang'', JStr ''tj'')])]), users_tmp = Missing\<rparr>))) ''lang'' = Some (JStr ''ru'') \<and>
   fst (get_lang 5 (set_lang None 17 5 ''xx'' \<lparr>users_json = Json (JObj [(''5'', JObj [(''lang'', JStr ''tj'')])]), users_tmp = Missing\<rparr>)) = Inr ''ru'' \<and>
   fst (get_lang 5 \<lparr>users_json = Json (JObj [(''5'', JObj [(''lang'', JStr ''tj'')])]), users_tmp = Missing\<rparr>) = Inr ''tj''"
proof -
  let ?d = "\<lparr>users_json = Json (JObj [(''5'', JObj [(''lang'', JStr ''tj'')])]), users_tmp = Missing\<rparr>"
  have x: "(if str_lower (str_strip ''xx'') \<in> set SUPPORTED_LANGS then str_lower (str_strip ''xx'') else DEFAULT_LANG) = ''ru''"
    by code_simp
  have s: "py_get (fst (get_user 5 ?d)) ''lang'' = JStr ''tj''"
    by code_simp
  have t: "(if str_lower (str_strip ''tj'') \<in> set SUPPORTED_LANGS then str_lower (str_strip ''tj'') else DEFAULT_LANG) = ''tj''"
    by code_simp
  show ?thesis
    using set_lang_then_get_lang [of 5 17 "''xx''" ?d "''tj''"] s
    unfolding x t by blast
qed

text \<open>
  C6 as stated fails: \<^verbatim>\<open>"TJ"\<close> is not in the supported set, yet \<^verbatim>\<open>set_lang\<close>
  stores \<^verbatim>\<open>"tj"\<close> for it, which is not the default.
\<close>

theorem set_lang_uppercase_counterexample:
  "''TJ'' \<notin> set SUPPORTED_LANGS \<and>
   map_of (fst (get_user 5 (set_lang None 17 5 ''TJ'' \<lparr>users_json = Missing, users_tmp = Missing\<rparr>))) ''lang'' = Some (JStr ''tj'') \<and>
   fst (get_lang 5 (set_lang None 17 5 ''TJ'' \<lparr>users_json = Missing, users_tmp = Missing\<rparr>)) = Inr ''tj'' \<and>
   ''tj'' \<noteq> DEFAULT_LANG"
  by code_simp

text \<open>
  C7. Reading a backing file that is missing, empty, unreadable, malformed or not a JSON
  object returns the empty mapping and leaves the disk as it was. Every exception of the
  read is one of these cases of the file, so the read has no failing outcome.
\<close>

theorem read_unusable_file_is_empty:
  "spec_unusable (users_json d) \<Longrightarrow> safe_read_json d = ([], d)"
  by (auto simp add: spec_unusable_def safe_read_json_def split: disk_file.splits json.splits)

theorem read_unusable_file_is_empty_witness:
  "spec_unusable (users_json \<lparr>users_json = Json (JArr [JInt 1]), users_tmp = Missing\<rparr>) \<and>
   safe_read_json \<lparr>users_json = Json (JArr [JInt 1]), users_tmp = Missing\<rparr> =
     ([], \<lparr>users_json = Json (JArr [JInt 1]), users_tmp = Missing\<rparr>)"
proof -
  have h: "spec_unusable (users_json \<lparr>users_json = Json (JArr [JInt 1]), users_tmp = Missing\<rparr>)"
    by (simp add: spec_unusable_def)
  show ?thesis using h read_unusable_file_is_empty [OF h] by simp
qed

text \<open>
  C8. \<^verbatim>\<open>get_purchase_status\<close> returns \<^verbatim>\<open>"none"\<close> whenever the entry for the user
  and the plan is absent or malformed: the record is not an object, its purchases field
  is not a mapping, or the value under the plan is not an object. It has no failing
  outcome and leaves the disk as it was.
\<close>

theorem get_purchase_status_none:
  "spec_entry uid plan d = None \<Longrightarrow> get_purchase_status uid plan d = (Str ''none'', d)"
  by (auto simp add: get_purchase_status_def get_user_eq spec_entry_def py_get_or_def py_str_def
      split: option.splits json.splits)

theorem get_purchase_status_none_witness:
  "spec_entry 7 ''PRO'' \<lparr>users_json = Json (JObj [(''7'', JObj [(''purchases'', JStr ''paid'')])]), users_tmp = Missing\<rparr> = None \<and>
   get_purchase_status 7 ''PRO'' \<lparr>users_json = Json (JObj [(''7'', JObj [(''purchases'', JStr ''paid'')])]), users_tmp = Missing\<rparr> =
     (Str ''none'', \<lparr>users_json = Json (JObj [(''7'', JObj [(''purchases'', JStr ''paid'')])]), users_tmp = Missing\<rparr>)"
proof -
  have h: "spec_entry 7 ''PRO'' \<lparr>users_json = Json (JObj [(''7'', JObj [(''purchases'', JStr ''paid'')])]), users_tmp = Missing\<rparr> = None"
    by code_simp
  show ?thesis using h get_purchase_status_none [OF h] by simp
qed

text \<open>
  C9. \<^verbatim>\<open>get_user\<close> returns the disk it was given, whatever the store holds, and the
  empty record for a user id that has no stored record.
\<close>

theorem get_user_default_and_frame:
  "snd (get_user uid d) = d \<and>
   (map_of (fst (safe_read_json d)) (str_int uid) = None \<longrightarrow> fst (get_user uid d) = [])"
  by (simp add: get_user_snd get_user_fst)

theorem get_user_default_and_frame_witness:
  "snd (get_user 5 \<lparr>users_json = Json (JObj [(''7'', JObj [(''lang'', JStr ''tj'')])]), users_tmp = Missing\<rparr>) =
     \<lparr>users_json = Json (JObj [(''7'', JObj [(''lang'', JStr ''tj'')])]), users_tmp = Missing\<rparr> \<and>
   map_of (fst (safe_read_json \<lparr>users_json = Json (JObj [(''7'', JObj [(''lang'', JStr ''tj'')])]), users_tmp = Missing\<rparr>)) (str_int 5) = None \<and>
   fst (get_user 5 \<lparr>users_json = Json (JObj [(''7'', JObj [(''lang'', JStr ''tj'')])]), users_tmp = Missing\<rparr>) = []"
proof -
  have h: "map_of (fst (safe_read_json \<lparr>users_json = Json (JObj [(''7'', JObj [(''lang'', JStr ''tj'')])]), users_tmp = Missing\<rparr>)) (str_int 5) = None"
    by code_simp
  show ?thesis
    using h get_user_default_and_frame [of 5 "\<lparr>users_json = Json (JObj [(''7'', JObj [(''lang'', JStr ''tj'')])]), users_tmp = Missing\<rparr>"]
    by simp
qed

text \<open>
  C10. \<^verbatim>\<open>user_has_access\<close> and \<^verbatim>\<open>get_approved_plan\<close> depend on nothing but
  the object-valued entries under BASIC, PRO and VIP: two stores that agree on those
  give the same answers, whatever else they hold under other keys or as non-object
  values.
\<close>

theorem access_reads_known_object_entries:
  "\<forall>plan \<in> set spec_plans. spec_entry uid plan d = spec_entry uid' plan d' \<Longrightarrow>
   fst (user_has_access uid d) = fst (user_has_access uid' d') \<and>
   fst (get_approved_plan uid d) = fst (get_approved_plan uid' d')"
  by (simp add: user_has_access_spec get_approved_plan_spec spec_plans_def spec_approved_def)

theorem access_reads_known_object_entries_witness:
  "(spec_entry 7 ''BASIC'' \<lparr>users_json = Json (JObj [(''7'', JObj [(''purchases'', JObj [(''GOLD'', JObj [(''status'', JStr ''approved'')]), (''VIP'', JStr ''approved'')])])]), users_tmp = Missing\<rparr> = spec_entry 7 ''BASIC'' \<lparr>users_json = Missing, users_tmp = Missing\<rparr>) \<and>
   (spec_entry 7 ''PRO'' \<lparr>users_json = Json (JObj [(''7'', JObj [(''purchases'', JObj [(''GOLD'', JObj [(''status'', JStr ''approved'')]), (''VIP'', JStr ''approved'')])])]), users_tmp = Missing\<rparr> = spec_entry 7 ''PRO'' \<lparr>users_json = Missing, users_tmp = Missing\<rparr>) \<and>
   (spec_entry 7 ''VIP'' \<lparr>users_json = Json (JObj [(''7'', JObj [(''purchases'', JObj [(''GOLD'', JObj [(''status'', JStr ''approved'')]), (''VIP'', JStr ''approved'')])])]), users_tmp = Missing\<rparr> = spec_entry 7 ''VIP'' \<lparr>users_json = Missing, users_tmp = Missing\<rparr>) \<and>
   fst (user_has_access 7 \<lparr>users_json = Json (JObj [(''7'', JObj [(''purchases'', JObj [(''GOLD'', JObj [(''status'', JStr ''approved'')]), (''VIP'', JStr ''approved'')])])]), users_tmp = Missing\<rparr>) = False \<and>
   fst (get_approved_plan 7 \<lparr>users_json = Json (JObj [(''7'', JObj [(''purchases'', JObj [(''GOLD'', JObj [(''status'', JStr ''approved'')]), (''VIP'', JStr ''approved'')])])]), users_tmp = Missing\<rparr>) = None"
proof -
  let ?d = "\<lparr>users_json = Json (JObj [(''7'', JObj [(''purchases'', JObj [(''GOLD'', JObj [(''status'', JStr ''approved'')]), (''VIP'', JStr ''approved'')])])]), users_tmp = Missing\<rparr>"
  let ?e = "\<lparr>users_json = Missing, users_tmp = Missing\<rparr>"
  have b: "spec_entry 7 ''BASIC'' ?d = spec_entry 7 ''BASIC'' ?e" by code_simp
  have p: "spec_entry 7 ''PRO'' ?d = spec_entry 7 ''PRO'' ?e" by code_simp
  have v: "spec_entry 7 ''VIP'' ?d = spec_entry 7 ''VIP'' ?e" by code_simp
  have h: "\<forall>plan \<in> set spec_plans. spec_entry 7 plan ?d = spec_entry 7 plan ?e"
    using b p v by (simp add: spec_plans_def)
  have e1: "fst (user_has_access 7 ?e) = False" by code_simp
  have e2: "fst (get_approved_plan 7 ?e) = None" by code_simp
  show ?thesis
    using b p v e1 e2 access_reads_known_object_entries [OF h] by simp
qed

end
